theory Spec2Isabelle
  imports Complex_Main
begin

section \<open>Utility functions (utils.ts)\<close>

subsection \<open>JavaScript numbers and \<open>calculatePower\<close>\<close>

text \<open>
  A JavaScript \<open>number\<close>: a finite value, one of the two infinities, or NaN. Finite
  values are kept as exact reals (rounding is left out), and the two zeros are one value:
  \<open>hours === 0\<close> holds for both of them. Division never throws in JavaScript; a zero
  divisor gives an infinity or NaN.
\<close>

datatype js_number = Num real | PosInfinity | NegInfinity | NaN

fun js_div :: "js_number \<Rightarrow> js_number \<Rightarrow> js_number" where
  "js_div NaN _ = NaN"
| "js_div _ NaN = NaN"
| "js_div (Num x) (Num y) =
     (if y = 0 then (if x = 0 then NaN else if 0 < x then PosInfinity else NegInfinity)
      else Num (x / y))"
| "js_div (Num x) PosInfinity = Num 0"
| "js_div (Num x) NegInfinity = Num 0"
| "js_div PosInfinity (Num y) = (if y < 0 then NegInfinity else PosInfinity)"
| "js_div NegInfinity (Num y) = (if y < 0 then PosInfinity else NegInfinity)"
| "js_div _ _ = NaN"

text \<open>
  \<^verbatim>\<open>
  export function calculatePower(energyKwh: number, hours: number): number {
    if (hours === 0) return 0;
    return energyKwh / hours;
  }
  \<close>
\<close>

definition calculatePower :: "js_number \<Rightarrow> js_number \<Rightarrow> js_number" where
  "calculatePower energyKwh hours =
     (if hours = Num 0 then Num 0 else js_div energyKwh hours)"

subsection \<open>\<open>retryWithBackoff\<close>\<close>

text \<open>
  A settled promise: resolved with a value or rejected with a reason.
\<close>

datatype ('a, 'e) settled = Resolved 'a | Rejected 'e

text \<open>
  \<^verbatim>\<open>
  export async function retryWithBackoff<T>(
    fn: () => Promise<T>, maxRetries: number = 3, initialDelay: number = 1000
  ): Promise<T> {
    let lastError: Error;
    for (let i = 0; i < maxRetries; i++) {
      try {
        return await fn();
      } catch (error) {
        lastError = error as Error;
        if (i < maxRetries - 1) {
          const delay = initialDelay * Math.pow(2, i);
          await new Promise(resolve => setTimeout(resolve, delay));
        }
      }
    }
    throw lastError!;
  }
  \<close>
  \<open>fn\<close> is called once per iteration, so it is given as the outcome of each of its
  calls: \<open>fn i\<close> is how the call made in iteration \<open>i\<close> settles. \<open>lastError\<close> starts
  out \<open>undefined\<close> (\<open>None\<close>). The run records how often \<open>fn\<close> was invoked and the
  delays slept, in milliseconds.
\<close>

record ('a, 'e) backoff_run =
  settledAs :: "('a, 'e option) settled"
  invocations :: nat
  slept :: "int list"

function retryLoop ::
  "(nat \<Rightarrow> ('a, 'e) settled) \<Rightarrow> int \<Rightarrow> int \<Rightarrow> nat \<Rightarrow> 'e option \<Rightarrow> ('a, 'e) backoff_run"
where
  "retryLoop fn maxRetries initialDelay i lastError =
     (if int i < maxRetries then
        (case fn i of
           Resolved v \<Rightarrow> \<lparr>settledAs = Resolved v, invocations = 1, slept = []\<rparr>
         | Rejected error \<Rightarrow>
             (let rest = retryLoop fn maxRetries initialDelay (Suc i) (Some error);
                  pause = (if int i < maxRetries - 1 then [initialDelay * 2 ^ i] else [])
              in rest\<lparr>invocations := Suc (invocations rest), slept := pause @ slept rest\<rparr>))
      else \<lparr>settledAs = Rejected lastError, invocations = 0, slept = []\<rparr>)"
  by pat_completeness auto
termination
  by (relation "measure (\<lambda>(fn, maxRetries, initialDelay, i, lastError). nat (maxRetries - int i))")
    auto

definition retryWithBackoff ::
  "(nat \<Rightarrow> ('a, 'e) settled) \<Rightarrow> int \<Rightarrow> int \<Rightarrow> ('a, 'e) backoff_run"
where
  "retryWithBackoff fn maxRetries initialDelay = retryLoop fn maxRetries initialDelay 0 None"

text \<open>What a settled promise was rejected with, if it was rejected.\<close>

fun rejection :: "('a, 'e) settled \<Rightarrow> 'e option" where
  "rejection (Rejected e) = Some e"
| "rejection (Resolved v) = None"

section \<open>The request pipeline (VoltnetClient.ts)\<close>

subsection \<open>Configuration\<close>

text \<open>
  \<^verbatim>\<open>
  export interface VoltnetConfig {
    apiUrl: string; apiKey: string; participantId: string;
    network?: { timeout?: number; retries?: number; };
    enableRealtime?: boolean;
  }
  \<close>
  An optional field that is absent is \<open>None\<close>; \<open>netTimeout\<close> and \<open>netRetries\<close> are
  the fields \<open>timeout\<close> and \<open>retries\<close> of \<open>network\<close>, as integers.
\<close>

record NetworkConfig =
  netTimeout :: "int option"
  netRetries :: "int option"

record VoltnetConfig =
  apiUrl :: string
  apiKey :: string
  participantId :: string
  network :: "NetworkConfig option"
  enableRealtime :: "bool option"

text \<open>
  \<open>x || d\<close> on an optional number: \<open>undefined\<close> and \<open>0\<close> are both falsy, so both
  give \<open>d\<close>.
\<close>

definition js_or :: "int option \<Rightarrow> int \<Rightarrow> int" where
  "js_or x d = (case x of None \<Rightarrow> d | Some n \<Rightarrow> if n = 0 then d else n)"

text \<open>\<open>config.network?.retries\<close> and \<open>config.network?.timeout\<close>.\<close>

definition network_retries :: "VoltnetConfig \<Rightarrow> int option" where
  "network_retries config = (case network config of None \<Rightarrow> None | Some n \<Rightarrow> netRetries n)"

definition network_timeout :: "VoltnetConfig \<Rightarrow> int option" where
  "network_timeout config = (case network config of None \<Rightarrow> None | Some n \<Rightarrow> netTimeout n)"

subsection \<open>Headers\<close>

text \<open>
  Headers are a list of names with their values. The transport library treats the
  names without regard to case: a header stands for every spelling of its name. Where
  two sets of headers are merged, a header of the higher set replaces the header of
  that name in the lower one.
\<close>

type_synonym headers = "(string \<times> string) list"

definition lowerChar :: "char \<Rightarrow> char" where
  "lowerChar c =
     (case map_of (zip ''ABCDEFGHIJKLMNOPQRSTUVWXYZ'' ''abcdefghijklmnopqrstuvwxyz'') c of
        None \<Rightarrow> c
      | Some d \<Rightarrow> d)"

definition headerName :: "string \<Rightarrow> string" where
  "headerName name = map lowerChar name"

definition headerValue :: "headers \<Rightarrow> string \<Rightarrow> string option" where
  "headerValue hs name = map_of (map (\<lambda>(k, v). (headerName k, v)) hs) (headerName name)"

definition mergeHeaders :: "headers \<Rightarrow> headers \<Rightarrow> headers" where
  "mergeHeaders lower higher =
     filter (\<lambda>(k, v). headerValue higher k = None) lower @ higher"

subsection \<open>The HTTP client and its requests\<close>

text \<open>
  \<^verbatim>\<open>
  this.httpClient = axios.create({
    baseURL: config.apiUrl,
    timeout: config.network?.timeout || 30000,
    headers: {
      'Authorization': `Bearer ${config.apiKey}`,
      'Content-Type': 'application/json',
      'X-Participant-Id': config.participantId
    }
  });
  \<close>
  together with \<open>const retries = this.config.network?.retries || 3\<close> of
  \<open>setupRetryLogic\<close>, which the response interceptor keeps for the lifetime of the
  client. \<open>axios.create\<close> lays the configuration it is given over the defaults of the
  library. Those defaults are not the repository's: the headers among them are the
  parameter \<open>libraryHeaders\<close>.
\<close>

record AxiosInstance =
  baseURL :: string
  timeoutMs :: int
  defaultHeaders :: headers
  retryLimit :: int

definition createHttpClient :: "headers \<Rightarrow> VoltnetConfig \<Rightarrow> AxiosInstance" where
  "createHttpClient libraryHeaders config =
     \<lparr>baseURL = apiUrl config,
      timeoutMs = js_or (network_timeout config) 30000,
      defaultHeaders =
        mergeHeaders libraryHeaders
          [(''Authorization'', ''Bearer '' @ apiKey config),
           (''Content-Type'', ''application/json''),
           (''X-Participant-Id'', participantId config)],
      retryLimit = js_or (network_retries config) 3\<rparr>"

text \<open>
  What a call site hands to the client: method, path, query parameters, body, and the
  headers it sets itself. The configuration of the request is the call laid over the
  defaults of the instance; base URL and path stay two fields of it. \<open>retryField\<close> is
  the \<open>_retry\<close> property the interceptor attaches to the configuration; it is absent
  on a new request.
\<close>

datatype http_method = GET | POST | PATCH | DELETE

record call_config =
  callMethod :: http_method
  callUrl :: string
  callParams :: "(string \<times> string) list"
  callData :: "string option"
  callHeaders :: headers

record request_config =
  reqMethod :: http_method
  reqBaseURL :: string
  reqUrl :: string
  reqParams :: "(string \<times> string) list"
  reqData :: "string option"
  reqHeaders :: headers
  reqTimeout :: int
  retryField :: "nat option"

definition mergeConfig :: "AxiosInstance \<Rightarrow> call_config \<Rightarrow> request_config" where
  "mergeConfig inst call =
     \<lparr>reqMethod = callMethod call,
      reqBaseURL = baseURL inst,
      reqUrl = callUrl call,
      reqParams = callParams call,
      reqData = callData call,
      reqHeaders = mergeHeaders (defaultHeaders inst) (callHeaders call),
      reqTimeout = timeoutMs inst,
      retryField = None\<rparr>"

text \<open>
  The calls the client class issues itself: \<open>getProfile\<close>, \<open>updateProfile\<close>,
  \<open>getBalance\<close>, \<open>getStatistics\<close>, \<open>getParticipant\<close>, \<open>searchParticipants\<close>. None
  of them passes headers.
\<close>

datatype api_call =
    GetProfile
  | UpdateProfile string
  | GetBalance
  | GetStatistics string string
  | GetParticipant string
  | SearchParticipants "(string \<times> string) list"

fun callOf :: "VoltnetConfig \<Rightarrow> api_call \<Rightarrow> call_config" where
  "callOf config GetProfile =
     \<lparr>callMethod = GET, callUrl = ''/participants/'' @ participantId config,
      callParams = [], callData = None, callHeaders = []\<rparr>"
| "callOf config (UpdateProfile updates) =
     \<lparr>callMethod = PATCH, callUrl = ''/participants/'' @ participantId config,
      callParams = [], callData = Some updates, callHeaders = []\<rparr>"
| "callOf config GetBalance =
     \<lparr>callMethod = GET, callUrl = ''/participants/'' @ participantId config @ ''/balance'',
      callParams = [], callData = None, callHeaders = []\<rparr>"
| "callOf config (GetStatistics from to) =
     \<lparr>callMethod = GET, callUrl = ''/participants/'' @ participantId config @ ''/statistics'',
      callParams = [(''from'', from), (''to'', to)], callData = None, callHeaders = []\<rparr>"
| "callOf config (GetParticipant pid) =
     \<lparr>callMethod = GET, callUrl = ''/participants/'' @ pid,
      callParams = [], callData = None, callHeaders = []\<rparr>"
| "callOf config (SearchParticipants query) =
     \<lparr>callMethod = GET, callUrl = ''/participants/search'',
      callParams = query, callData = None, callHeaders = []\<rparr>"

subsection \<open>The retry interceptor\<close>

text \<open>
  A failed attempt rejects with an error. The error carries the response when one was
  received (a status outside the accepted range) and none when the request never got
  one (network failure, timeout). \<open>hasConfig\<close> says whether \<open>error.config\<close> is
  defined; when it is, it is the configuration of the request as it was sent.
\<close>

record AxiosResponse =
  status :: int
  responseData :: string

record AxiosError =
  message :: string
  response :: "AxiosResponse option"
  hasConfig :: bool

text \<open>
  \<^verbatim>\<open>
  private shouldRetry(error: any): boolean {
    if (!error.response) return true; // Network error
    const status = error.response.status;
    return status >= 500 || status === 429; // Server errors or rate limit
  }
  \<close>
\<close>

definition shouldRetry :: "AxiosError \<Rightarrow> bool" where
  "shouldRetry error =
     (case response error of
        None \<Rightarrow> True
      | Some r \<Rightarrow> status r \<ge> 500 \<or> status r = 429)"

text \<open>
  \<^verbatim>\<open>
  async error => {
    const config = error.config;
    if (!config || !config._retry) {
      config._retry = 0;
    }
    if (config._retry < retries && this.shouldRetry(error)) {
      config._retry += 1;
      // Exponential backoff
      const delay = Math.pow(2, config._retry) * 1000;
      await new Promise(resolve => setTimeout(resolve, delay));
      return this.httpClient(config);
    }
    return Promise.reject(error);
  }
  \<close>
  When \<open>error.config\<close> is undefined, \<open>!config\<close> holds and the assignment
  \<open>config._retry = 0\<close> throws a \<open>TypeError\<close>: the handler rejects with that
  exception and neither retries nor passes the error on. Otherwise an absent
  \<open>_retry\<close> and \<open>_retry = 0\<close> are both falsy and both continue as \<open>0\<close>, and the
  handler either sends the request again, after asking \<open>setTimeout\<close> for a delay in
  milliseconds, or gives up and rejects with the error it was given.
\<close>

definition retryCount :: "request_config \<Rightarrow> nat" where
  "retryCount config = (case retryField config of None \<Rightarrow> 0 | Some n \<Rightarrow> n)"

datatype interceptor_step =
    SendAgain request_config int
  | GiveUp AxiosError
  | ThrowTypeError

definition onRejected :: "int \<Rightarrow> request_config \<Rightarrow> AxiosError \<Rightarrow> interceptor_step" where
  "onRejected retries config error =
     (if \<not> hasConfig error then ThrowTypeError
      else
        (let n = retryCount config in
         if int n < retries \<and> shouldRetry error
         then SendAgain (config\<lparr>retryField := Some (Suc n)\<rparr>) (2 ^ Suc n * 1000)
         else GiveUp error))"

text \<open>
  One logical call. \<open>adapter k\<close> is how the transport settles the attempt number \<open>k\<close>
  (counted from \<open>0\<close>) of the call. \<open>this.httpClient(config)\<close> in the interceptor sends
  the request through the same instance, so a failure of the new attempt reaches the
  interceptor again. The promise given to the caller resolves with a response, or
  rejects with the failure the interceptor passed on or with the \<open>TypeError\<close> the
  interceptor threw. The run records that, the requests sent, one per attempt, and
  the delays asked of \<open>setTimeout\<close> between them.
\<close>

datatype call_failure = Failure AxiosError | HandlerTypeError

record call_run =
  outcome :: "(AxiosResponse, call_failure) settled"
  sent :: "request_config list"
  delays :: "int list"

function httpClient ::
  "int \<Rightarrow> (nat \<Rightarrow> (AxiosResponse, AxiosError) settled) \<Rightarrow> nat \<Rightarrow> request_config \<Rightarrow> call_run"
where
  "httpClient retries adapter k config =
     (case adapter k of
        Resolved r \<Rightarrow> \<lparr>outcome = Resolved r, sent = [config], delays = []\<rparr>
      | Rejected error \<Rightarrow>
          (case onRejected retries config error of
             ThrowTypeError \<Rightarrow>
               \<lparr>outcome = Rejected HandlerTypeError, sent = [config], delays = []\<rparr>
           | GiveUp e \<Rightarrow> \<lparr>outcome = Rejected (Failure e), sent = [config], delays = []\<rparr>
           | SendAgain config' delay \<Rightarrow>
               (let rest = httpClient retries adapter (Suc k) config'
                in rest\<lparr>sent := config # sent rest, delays := delay # delays rest\<rparr>)))"
  by pat_completeness auto
termination
proof (relation "measure (\<lambda>(retries, adapter, k, config). nat (retries - int (retryCount config)))")
  show "wf (measure (\<lambda>(retries, adapter, k, config). nat (retries - int (retryCount config))))"
    by simp
next
  fix retries :: int and adapter :: "nat \<Rightarrow> (AxiosResponse, AxiosError) settled"
    and k :: nat and config config' :: request_config and error :: AxiosError and delay :: int
  assume "onRejected retries config error = SendAgain config' delay"
  then have "int (retryCount config) < retries" and "retryCount config' = Suc (retryCount config)"
    by (auto simp: onRejected_def Let_def retryCount_def split: if_splits)
  then show "((retries, adapter, Suc k, config'), (retries, adapter, k, config))
      \<in> measure (\<lambda>(retries, adapter, k, config). nat (retries - int (retryCount config)))"
    by simp
qed

definition attempts :: "call_run \<Rightarrow> nat" where
  "attempts run = length (sent run)"

text \<open>
  A call issued through the client of a configuration, created over the library's
  default headers.
\<close>

definition request ::
  "headers \<Rightarrow> VoltnetConfig \<Rightarrow> (nat \<Rightarrow> (AxiosResponse, AxiosError) settled) \<Rightarrow> call_config
     \<Rightarrow> call_run"
where
  "request libraryHeaders config adapter call =
     (let inst = createHttpClient libraryHeaders config
      in httpClient (retryLimit inst) adapter 0 (mergeConfig inst call))"

section \<open>The event channel (VoltnetClient.ts)\<close>

subsection \<open>Values and listeners\<close>

text \<open>
  A decoded frame is a JSON value. A property that is missing reads as
  \<open>undefined\<close>; the argument handed to a listener is such a value, or the \<open>Error\<close>
  object of the \<open>error\<close> event.
\<close>

datatype json =
    JNull
  | JBool bool
  | JNumber int
  | JString string
  | JArray "json list"
  | JObject "(string \<times> json) list"

datatype payload = Undefined | Value json | ErrorObject string

datatype js_exception = TypeError | SyntaxError | Thrown string

text \<open>
  A listener is a callback with an identity. Called with a payload it returns or it
  throws; what else it does is outside the client.
\<close>

datatype listener_result = Returned | Threw js_exception

record listener =
  handle :: nat
  callback :: "payload \<Rightarrow> listener_result"

text \<open>
  Reading a property of a parsed value: only an object has the properties \<open>type\<close>
  and \<open>payload\<close>.
\<close>

fun getProp :: "json \<Rightarrow> string \<Rightarrow> json option" where
  "getProp (JObject props) name = map_of props name"
| "getProp _ name = None"

definition toPayload :: "json option \<Rightarrow> payload" where
  "toPayload v = (case v of None \<Rightarrow> Undefined | Some j \<Rightarrow> Value j)"

subsection \<open>The state of a client\<close>

text \<open>
  \<open>wsConnection\<close> is the field of the class: the socket the client holds, by number.
  \<open>socketsCreated\<close> counts the sockets constructed so far and \<open>closeCalls\<close> lists the
  sockets whose \<open>close()\<close> was called. \<open>timers\<close> holds the delays of the pending
  \<open>setTimeout\<close> callbacks; the only callback the class ever schedules is
  \<open>() => this.initializeWebSocket()\<close>, and no handle of a timer is kept anywhere.
  \<open>listeners\<close> is the registry of the base class, \<open>console\<close> what was written to the
  console, and \<open>invoked\<close> the calls made to listeners so far: event, handle, argument.
\<close>

datatype console_entry = ConsoleLog string | ConsoleWarn string | ConsoleError string

record client_state =
  wsConnection :: "nat option"
  socketsCreated :: nat
  closeCalls :: "nat list"
  timers :: "nat list"
  listeners :: "string \<Rightarrow> listener list"
  console :: "console_entry list"
  invoked :: "(string \<times> nat \<times> payload) list"

definition newClient :: client_state where
  "newClient =
     \<lparr>wsConnection = None, socketsCreated = 0, closeCalls = [], timers = [],
      listeners = (\<lambda>event. []), console = [], invoked = []\<rparr>"

subsection \<open>The registry: the methods inherited from the emitter base class\<close>

text \<open>
  \<open>export class VoltnetClient extends EventEmitter<VoltnetEvents>\<close>: the registry is
  the base class of the package \<open>eventemitter3\<close>, and \<open>on\<close>, \<open>emit\<close> and
  \<open>removeAllListeners\<close> are its methods; the client defines none of its own and wraps
  none of them. \<open>on\<close> appends the listener to those of the event.
  \<open>removeAllListeners()\<close> without an argument empties the registry. \<open>emit\<close> calls the
  listeners of the event one after the other, in the order of their registration, with
  no exception handler around the calls: an exception thrown by a listener ends the
  loop and leaves \<open>emit\<close>.
\<close>

definition on :: "string \<Rightarrow> listener \<Rightarrow> client_state \<Rightarrow> client_state" where
  "on event l s = s\<lparr>listeners := (listeners s)(event := listeners s event @ [l])\<rparr>"

definition removeAllListeners :: "client_state \<Rightarrow> client_state" where
  "removeAllListeners s = s\<lparr>listeners := (\<lambda>event. [])\<rparr>"

fun callListeners :: "listener list \<Rightarrow> payload \<Rightarrow> nat list \<times> js_exception option" where
  "callListeners [] p = ([], None)"
| "callListeners (l # ls) p =
     (case callback l p of
        Threw e \<Rightarrow> ([handle l], Some e)
      | Returned \<Rightarrow> (case callListeners ls p of (called, r) \<Rightarrow> (handle l # called, r)))"

text \<open>
  \<open>emit\<close> gives the state after the calls and the exception that left it, if any.
\<close>

definition emit :: "string \<Rightarrow> payload \<Rightarrow> client_state \<Rightarrow> client_state \<times> js_exception option" where
  "emit event p s =
     (case callListeners (listeners s event) p of
        (called, r) \<Rightarrow> (s\<lparr>invoked := invoked s @ map (\<lambda>h. (event, h, p)) called\<rparr>, r))"

subsection \<open>Inbound frames\<close>

text \<open>
  \<^verbatim>\<open>
  private handleWebSocketMessage(data: any): void {
    const { type, payload } = data;
    switch (type) {
      case 'measurement': this.emit('measurement', payload); break;
      case 'transaction': this.emit('transaction', payload); break;
      case 'settlement': this.emit('settlement', payload); break;
      case 'offer': this.emit('offer', payload); break;
      case 'price-update': this.emit('price-update', payload); break;
      case 'balance-update': this.emit('balance-update', payload); break;
      default:
        console.warn('[VOLTNET] Unknown message type:', type);
    }
  }
  \<close>
  Destructuring \<open>null\<close> throws a \<open>TypeError\<close>; every other parsed value can be
  destructured. The method has no exception handler of its own.
\<close>

definition handleWebSocketMessage ::
  "json \<Rightarrow> client_state \<Rightarrow> client_state \<times> js_exception option"
where
  "handleWebSocketMessage data s =
     (if data = JNull then (s, Some TypeError)
      else
        (let msgType = getProp data ''type'';
             msgPayload = toPayload (getProp data ''payload'')
         in if msgType = Some (JString ''measurement'') then emit ''measurement'' msgPayload s
            else if msgType = Some (JString ''transaction'') then emit ''transaction'' msgPayload s
            else if msgType = Some (JString ''settlement'') then emit ''settlement'' msgPayload s
            else if msgType = Some (JString ''offer'') then emit ''offer'' msgPayload s
            else if msgType = Some (JString ''price-update'') then emit ''price-update'' msgPayload s
            else if msgType = Some (JString ''balance-update'') then emit ''balance-update'' msgPayload s
            else (s\<lparr>console := console s @ [ConsoleWarn ''[VOLTNET] Unknown message type:'']\<rparr>,
                  None)))"

text \<open>
  \<^verbatim>\<open>
  this.wsConnection.onmessage = (event) => {
    try {
      const data = JSON.parse(event.data);
      this.handleWebSocketMessage(data);
    } catch (error) {
      console.error('[VOLTNET] Failed to parse WebSocket message:', error);
    }
  };
  \<close>
  \<open>JSON.parse\<close> is a parameter: for the text \<open>raw\<close> of a frame, \<open>parse raw\<close> is the
  parsed value, or \<open>None\<close> when
  \<open>JSON.parse\<close> throws. The handler catches whatever the two calls throw, so it
  returns a state and nothing else.
\<close>

definition onmessage :: "(string \<Rightarrow> json option) \<Rightarrow> string \<Rightarrow> client_state \<Rightarrow> client_state" where
  "onmessage parse raw s =
     (case parse raw of
        None \<Rightarrow>
          s\<lparr>console := console s @ [ConsoleError ''[VOLTNET] Failed to parse WebSocket message:'']\<rparr>
      | Some data \<Rightarrow>
          (case handleWebSocketMessage data s of
             (s', None) \<Rightarrow> s'
           | (s', Some error) \<Rightarrow>
               s'\<lparr>console := console s' @
                    [ConsoleError ''[VOLTNET] Failed to parse WebSocket message:'']\<rparr>))"

text \<open>
  The kinds the \<open>switch\<close> of \<open>handleWebSocketMessage\<close> has a case for.
\<close>

definition recognizedKinds :: "string list" where
  "recognizedKinds =
     [''measurement'', ''transaction'', ''settlement'', ''offer'', ''price-update'',
      ''balance-update'']"

subsection \<open>Connecting, closing, reconnecting\<close>

text \<open>
  \<^verbatim>\<open>
  private initializeWebSocket(): void {
    const wsUrl = this.config.apiUrl.replace('http', 'ws') + '/ws';
    try {
      this.wsConnection = new WebSocket(`${wsUrl}?apiKey=...&participantId=...`);
      this.wsConnection.onopen = () => { console.log('[VOLTNET] WebSocket connected'); };
      this.wsConnection.onmessage = ...;
      this.wsConnection.onerror = (error) => {
        console.error('[VOLTNET] WebSocket error:', error);
        this.emit('error', new Error('WebSocket connection error'));
      };
      this.wsConnection.onclose = () => {
        console.log('[VOLTNET] WebSocket disconnected');
        // Attempt to reconnect after 5 seconds
        setTimeout(() => this.initializeWebSocket(), 5000);
      };
    } catch (error) {
      console.error('[VOLTNET] Failed to initialize WebSocket:', error);
    }
  }
  \<close>
  Whether \<open>new WebSocket(...)\<close> returns a socket or throws is decided outside the
  client: \<open>constructed\<close> says which. When it throws, the assignment does not happen
  and the catch clause logs. Every socket gets the same four handlers, and none of
  them looks at the socket it belongs to, so each is a function of the state of the
  client alone.
\<close>

definition initializeWebSocket :: "bool \<Rightarrow> client_state \<Rightarrow> client_state" where
  "initializeWebSocket constructed s =
     (if constructed
      then s\<lparr>wsConnection := Some (socketsCreated s), socketsCreated := Suc (socketsCreated s)\<rparr>
      else s\<lparr>console := console s @ [ConsoleError ''[VOLTNET] Failed to initialize WebSocket:'']\<rparr>)"

definition onopen :: "client_state \<Rightarrow> client_state" where
  "onopen s = s\<lparr>console := console s @ [ConsoleLog ''[VOLTNET] WebSocket connected'']\<rparr>"

definition onerror :: "client_state \<Rightarrow> client_state \<times> js_exception option" where
  "onerror s =
     emit ''error'' (ErrorObject ''WebSocket connection error'')
       (s\<lparr>console := console s @ [ConsoleError ''[VOLTNET] WebSocket error:'']\<rparr>)"

definition onclose :: "client_state \<Rightarrow> client_state" where
  "onclose s =
     s\<lparr>console := console s @ [ConsoleLog ''[VOLTNET] WebSocket disconnected''],
       timers := timers s @ [5000]\<rparr>"

text \<open>
  A pending timer comes due: it leaves the pending ones and its callback runs. All
  delays are equal, so the oldest timer is the one that fires.
\<close>

definition timerFires :: "bool \<Rightarrow> client_state \<Rightarrow> client_state" where
  "timerFires constructed s =
     (case timers s of
        [] \<Rightarrow> s
      | t # ts \<Rightarrow> initializeWebSocket constructed (s\<lparr>timers := ts\<rparr>))"

text \<open>
  \<^verbatim>\<open>
  disconnect(): void {
    if (this.wsConnection) {
      this.wsConnection.close();
      this.wsConnection = undefined;
    }
    this.removeAllListeners();
  }
  \<close>
\<close>

definition disconnect :: "client_state \<Rightarrow> client_state" where
  "disconnect s =
     removeAllListeners
       (case wsConnection s of
          Some c \<Rightarrow> s\<lparr>closeCalls := closeCalls s @ [c], wsConnection := None\<rparr>
        | None \<Rightarrow> s)"

text \<open>
  The part of the constructor that concerns the channel:
  \<open>if (config.enableRealtime) { this.initializeWebSocket(); }\<close>.
\<close>

definition VoltnetClient :: "VoltnetConfig \<Rightarrow> bool \<Rightarrow> client_state" where
  "VoltnetClient config constructed =
     (if enableRealtime config = Some True then initializeWebSocket constructed newClient
      else newClient)"

text \<open>
  The connection closing and the reconnect timer coming due with a socket constructed,
  \<open>n\<close> times over.
\<close>

fun closeAndReconnect :: "nat \<Rightarrow> client_state \<Rightarrow> client_state" where
  "closeAndReconnect 0 s = s"
| "closeAndReconnect (Suc n) s = closeAndReconnect n (timerFires True (onclose s))"

section \<open>Inputs used in the examples\<close>

definition exampleConfig :: VoltnetConfig where
  "exampleConfig =
     \<lparr>apiUrl = ''https://api.example'', apiKey = ''k'', participantId = ''p1'',
      network = None, enableRealtime = None\<rparr>"

definition withRetries :: "int \<Rightarrow> VoltnetConfig" where
  "withRetries r = exampleConfig\<lparr>network := Some \<lparr>netTimeout = None, netRetries = Some r\<rparr>\<rparr>"

definition realtimeConfig :: VoltnetConfig where
  "realtimeConfig = exampleConfig\<lparr>enableRealtime := Some True\<rparr>"

text \<open>
  Failures of the transport that carry the configuration of their request: one with a
  response of a given status, one without a response. And a failure that carries
  neither a response nor a configuration, as the transport gives for a URL it cannot
  parse.
\<close>

definition statusError :: "int \<Rightarrow> AxiosError" where
  "statusError st =
     \<lparr>message = ''Request failed'', response = Some \<lparr>status = st, responseData = []\<rparr>,
      hasConfig = True\<rparr>"

definition networkError :: AxiosError where
  "networkError = \<lparr>message = ''Network Error'', response = None, hasConfig = True\<rparr>"

definition invalidUrlError :: AxiosError where
  "invalidUrlError = \<lparr>message = ''Invalid URL'', response = None, hasConfig = False\<rparr>"



definition serverErrorThenInvalidUrl :: "nat \<Rightarrow> (AxiosResponse, AxiosError) settled" where
  "serverErrorThenInvalidUrl k =
     (if k = 0 then Rejected (statusError 503) else Rejected invalidUrlError)"

text \<open>Default headers of a transport library: the \<open>Accept\<close> header that axios sets.\<close>

definition libraryAccept :: headers where
  "libraryAccept = [(''Accept'', ''application/json, text/plain, */*'')]"

definition throwing :: listener where
  "throwing = \<lparr>handle = 1, callback = (\<lambda>p. Threw (Thrown ''boom''))\<rparr>"

definition quiet :: listener where
  "quiet = \<lparr>handle = 2, callback = (\<lambda>p. Returned)\<rparr>"

section \<open>Properties of the utility functions\<close>

declare retryLoop.simps [simp del]
declare httpClient.simps [simp del]

text \<open>
  Without the guard the division would give an infinity or NaN for a zero divisor.
\<close>

lemma js_div_by_zero:
  "js_div (Num 5) (Num 0) = PosInfinity" "js_div (Num 0) (Num 0) = NaN"
  by simp_all

text \<open>
  C9. For every \<open>energyKwh\<close>, finite or not, \<open>calculatePower(energyKwh, 0)\<close> is \<open>0\<close>:
  the guard on \<open>hours\<close> answers before the division is reached.
\<close>

theorem calculatePower_zero_hours: "calculatePower energyKwh (Num 0) = Num 0"
  by (simp add: calculatePower_def)

theorem calculatePower_zero_hours_witness:
  "calculatePower (Num 5) (Num 0) = Num 0 \<and> calculatePower NaN (Num 0) = Num 0"
  using calculatePower_zero_hours [of "Num 5"] calculatePower_zero_hours [of NaN]
  by simp

subsection \<open>The loop of \<open>retryWithBackoff\<close>\<close>

lemma retryLoop_invocations:
  "int (invocations (retryLoop fn m d i lastError)) \<le> max 0 (m - int i)"
proof (induction fn m d i lastError rule: retryLoop.induct)
  case (1 fn m d i lastError)
  show ?case
  proof (cases "int i < m")
    case False
    then show ?thesis by (simp add: retryLoop.simps [of fn m d i lastError])
  next
    case True
    show ?thesis
    proof (cases "fn i")
      case (Resolved v)
      with True show ?thesis by (simp add: retryLoop.simps [of fn m d i lastError])
    next
      case (Rejected e)
      with True "1.IH" [OF True Rejected] show ?thesis
        by (simp add: retryLoop.simps [of fn m d i lastError] Let_def)
    qed
  qed
qed

lemma retryLoop_all_reject:
  assumes "\<forall>k. i \<le> k \<and> int k < m \<longrightarrow> (\<exists>e. fn k = Rejected e)"
  shows "settledAs (retryLoop fn m d i lastError) =
           Rejected (if int i < m then rejection (fn (nat (m - 1))) else lastError)
         \<and> invocations (retryLoop fn m d i lastError) = nat (m - int i)"
  using assms
proof (induction fn m d i lastError rule: retryLoop.induct)
  case (1 fn m d i lastError)
  show ?case
  proof (cases "int i < m")
    case False
    then show ?thesis by (simp add: retryLoop.simps [of fn m d i lastError])
  next
    case True
    with "1.prems" obtain e where e: "fn i = Rejected e" by auto
    have rest: "\<forall>k. Suc i \<le> k \<and> int k < m \<longrightarrow> (\<exists>e. fn k = Rejected e)"
      using "1.prems" by auto
    note IH = "1.IH" [OF True e rest]
    show ?thesis
    proof (cases "int (Suc i) < m")
      case True
      with IH \<open>int i < m\<close> e show ?thesis
        by (simp add: retryLoop.simps [of fn m d i lastError] Let_def nat_diff_distrib')
    next
      case False
      with \<open>int i < m\<close> have "nat (m - 1) = i" by simp
      with IH False \<open>int i < m\<close> e show ?thesis
        by (simp add: retryLoop.simps [of fn m d i lastError] Let_def)
    qed
  qed
qed

lemma retryLoop_first_resolve:
  assumes "i \<le> j" and "int j < m" and "fn j = Resolved v"
    and "\<forall>k. i \<le> k \<and> k < j \<longrightarrow> (\<exists>e. fn k = Rejected e)"
  shows "settledAs (retryLoop fn m d i lastError) = Resolved v
         \<and> invocations (retryLoop fn m d i lastError) = Suc j - i"
  using assms
proof (induction fn m d i lastError rule: retryLoop.induct)
  case (1 fn m d i lastError)
  have im: "int i < m" using "1.prems" by simp
  show ?case
  proof (cases "i = j")
    case True
    with im "1.prems" show ?thesis
      by (simp add: retryLoop.simps [of fn m d j lastError])
  next
    case False
    with "1.prems" have lt: "i < j" by simp
    with "1.prems" obtain e where e: "fn i = Rejected e" by auto
    have rest: "\<forall>k. Suc i \<le> k \<and> k < j \<longrightarrow> (\<exists>e. fn k = Rejected e)"
      using "1.prems" by auto
    have "Suc i \<le> j" using lt by simp
    note IH = "1.IH" [OF im e this "1.prems"(2) "1.prems"(3) rest]
    have "Suc (Suc j - Suc i) = Suc j - i" using lt by simp
    with IH im e show ?thesis
      by (simp add: retryLoop.simps [of fn m d i lastError] Let_def)
  qed
qed

lemma retryLoop_zero:
  "retryLoop fn 0 d 0 None = \<lparr>settledAs = Rejected None, invocations = 0, slept = []\<rparr>"
  by (simp add: retryLoop.simps [of fn 0 d 0 None])

text \<open>
  C10. \<open>maxRetries\<close> is an integer. For every \<open>fn\<close> and \<open>initialDelay\<close>,
  \<open>retryWithBackoff(fn, maxRetries, initialDelay)\<close> invokes \<open>fn\<close> at most
  \<open>maxRetries\<close> times. When every invocation rejects, \<open>fn\<close> is invoked exactly
  \<open>maxRetries\<close> times and the call rejects with the error of the last of these
  invocations. When an invocation resolves after all earlier ones rejected, it is the
  last invocation and the call resolves with its value. With \<open>maxRetries = 0\<close> the
  call never invokes \<open>fn\<close> and rejects with \<open>undefined\<close>.
\<close>

theorem retryWithBackoff_bounded:
  "(0 \<le> maxRetries \<longrightarrow>
      int (invocations (retryWithBackoff fn maxRetries initialDelay)) \<le> maxRetries) \<and>
   (0 < maxRetries \<and> (\<forall>k. int k < maxRetries \<longrightarrow> (\<exists>e. fn k = Rejected e)) \<longrightarrow>
      settledAs (retryWithBackoff fn maxRetries initialDelay)
        = Rejected (rejection (fn (nat (maxRetries - 1))))) \<and>
   (0 < maxRetries \<and> (\<forall>k. int k < maxRetries \<longrightarrow> (\<exists>e. fn k = Rejected e)) \<longrightarrow>
      int (invocations (retryWithBackoff fn maxRetries initialDelay)) = maxRetries
      \<and> settledAs (retryWithBackoff fn maxRetries initialDelay)
          = Rejected (rejection
              (fn (invocations (retryWithBackoff fn maxRetries initialDelay) - 1)))) \<and>
   (int j < maxRetries \<and> fn j = Resolved v \<and> (\<forall>k<j. \<exists>e. fn k = Rejected e) \<longrightarrow>
      invocations (retryWithBackoff fn maxRetries initialDelay) = Suc j
      \<and> settledAs (retryWithBackoff fn maxRetries initialDelay) = Resolved v) \<and>
   invocations (retryWithBackoff fn 0 initialDelay) = 0 \<and>
   settledAs (retryWithBackoff fn 0 initialDelay) = Rejected None"
proof -
  have a: "0 \<le> maxRetries \<longrightarrow>
      int (invocations (retryWithBackoff fn maxRetries initialDelay)) \<le> maxRetries"
    using retryLoop_invocations [of fn maxRetries initialDelay 0 None]
    by (auto simp add: retryWithBackoff_def)
  have b: "settledAs (retryWithBackoff fn maxRetries initialDelay)
        = Rejected (rejection (fn (nat (maxRetries - 1))))
      \<and> int (invocations (retryWithBackoff fn maxRetries initialDelay)) = maxRetries"
    if "0 < maxRetries \<and> (\<forall>k. int k < maxRetries \<longrightarrow> (\<exists>e. fn k = Rejected e))"
    using that retryLoop_all_reject [of 0 maxRetries fn initialDelay None]
    by (simp add: retryWithBackoff_def)
  have b': "settledAs (retryWithBackoff fn maxRetries initialDelay)
          = Rejected (rejection
              (fn (invocations (retryWithBackoff fn maxRetries initialDelay) - 1)))"
    if "0 < maxRetries \<and> (\<forall>k. int k < maxRetries \<longrightarrow> (\<exists>e. fn k = Rejected e))"
  proof -
    from b [OF that]
    have "invocations (retryWithBackoff fn maxRetries initialDelay) - 1 = nat (maxRetries - 1)"
      by linarith
    with b [OF that] show ?thesis by simp
  qed
  have c: "invocations (retryWithBackoff fn maxRetries initialDelay) = Suc j
      \<and> settledAs (retryWithBackoff fn maxRetries initialDelay) = Resolved v"
    if "int j < maxRetries \<and> fn j = Resolved v \<and> (\<forall>k<j. \<exists>e. fn k = Rejected e)"
    using that retryLoop_first_resolve [of 0 j maxRetries fn v initialDelay None]
    by (simp add: retryWithBackoff_def)
  show ?thesis
    using a b b' c by (simp add: retryWithBackoff_def retryLoop_zero)
qed

lemma retryWithBackoff_resolves_second:
  "retryWithBackoff (\<lambda>k. if k = 1 then Resolved True else Rejected k) 3 1000 =
     \<lparr>settledAs = Resolved True, invocations = 2, slept = [1000]\<rparr>"
  by (simp add: retryWithBackoff_def retryLoop.simps)

theorem retryWithBackoff_bounded_witness:
  "(0::int) \<le> 3
   \<and> int (invocations (retryWithBackoff (\<lambda>k. (Rejected k :: (unit, nat) settled)) 3 1000)) \<le> 3
   \<and> (0::int) < 3
   \<and> (\<forall>k. \<exists>e. (Rejected k :: (unit, nat) settled) = Rejected e)
   \<and> invocations (retryWithBackoff (\<lambda>k. (Rejected k :: (unit, nat) settled)) 3 1000) = 3
   \<and> settledAs (retryWithBackoff (\<lambda>k. (Rejected k :: (unit, nat) settled)) 3 1000)
       = Rejected (Some 2)
   \<and> invocations (retryWithBackoff (\<lambda>k. if k = 1 then Resolved True else Rejected k) 3 1000) = 2
   \<and> settledAs (retryWithBackoff (\<lambda>k. if k = 1 then Resolved True else Rejected k) 3 1000)
       = Resolved True
   \<and> invocations (retryWithBackoff (\<lambda>k. (Rejected k :: (unit, nat) settled)) 0 1000) = 0
   \<and> settledAs (retryWithBackoff (\<lambda>k. (Rejected k :: (unit, nat) settled)) 0 1000)
       = Rejected None"
  using retryWithBackoff_bounded
      [where maxRetries = 3 and fn = "\<lambda>k. (Rejected k :: (unit, nat) settled)"
         and initialDelay = 1000]
    retryWithBackoff_bounded
      [where maxRetries = 3 and fn = "\<lambda>k. if k = 1 then Resolved True else Rejected k"
         and initialDelay = 1000 and j = 1 and v = True]
  by simp

section \<open>Properties of the request pipeline\<close>

subsection \<open>Headers\<close>

lemma headerValue_empty [simp]: "headerValue [] name = None"
  by (simp add: headerValue_def)

lemma mergeHeaders_none [simp]: "mergeHeaders defaults [] = defaults"
  by (simp add: mergeHeaders_def)






lemma callOf_no_headers [simp]: "callHeaders (callOf cfg c) = []"
  by (cases c) simp_all

subsection \<open>One step of a call\<close>

lemma onRejected_cases:
  "onRejected retries config error =
     (if \<not> hasConfig error then ThrowTypeError
      else if int (retryCount config) < retries \<and> shouldRetry error
      then SendAgain (config\<lparr>retryField := Some (Suc (retryCount config))\<rparr>)
             (2 ^ Suc (retryCount config) * 1000)
      else GiveUp error)"
  by (simp add: onRejected_def Let_def)

lemma retryCount_update [simp]: "retryCount (config\<lparr>retryField := Some n\<rparr>) = n"
  by (simp add: retryCount_def)

lemma retryCount_mergeConfig [simp]: "retryCount (mergeConfig inst call) = 0"
  by (simp add: retryCount_def mergeConfig_def)

lemma httpClient_Resolved:
  "adapter k = Resolved r \<Longrightarrow>
   httpClient retries adapter k config = \<lparr>outcome = Resolved r, sent = [config], delays = []\<rparr>"
  by (simp add: httpClient.simps [of retries adapter k config])

lemma httpClient_Throw:
  "adapter k = Rejected error \<Longrightarrow> \<not> hasConfig error \<Longrightarrow>
   httpClient retries adapter k config =
     \<lparr>outcome = Rejected HandlerTypeError, sent = [config], delays = []\<rparr>"
  by (simp add: httpClient.simps [of retries adapter k config] onRejected_cases)

lemma httpClient_GiveUp:
  "adapter k = Rejected error \<Longrightarrow> hasConfig error \<Longrightarrow>
   \<not> (int (retryCount config) < retries \<and> shouldRetry error) \<Longrightarrow>
   httpClient retries adapter k config =
     \<lparr>outcome = Rejected (Failure error), sent = [config], delays = []\<rparr>"
  by (auto simp add: httpClient.simps [of retries adapter k config] onRejected_cases)

lemma httpClient_SendAgain:
  "adapter k = Rejected error \<Longrightarrow> hasConfig error \<Longrightarrow>
   int (retryCount config) < retries \<Longrightarrow> shouldRetry error \<Longrightarrow>
   httpClient retries adapter k config =
     (let rest = httpClient retries adapter (Suc k)
                   (config\<lparr>retryField := Some (Suc (retryCount config))\<rparr>)
      in rest\<lparr>sent := config # sent rest,
              delays := 2 ^ Suc (retryCount config) * 1000 # delays rest\<rparr>)"
  by (simp add: httpClient.simps [of retries adapter k config] onRejected_cases)

lemma httpClient_cases [consumes 0, case_names Resolved Throw GiveUp SendAgain]:
  assumes "\<And>r. adapter k = Resolved r \<Longrightarrow> P"
    and "\<And>error. adapter k = Rejected error \<Longrightarrow> \<not> hasConfig error \<Longrightarrow> P"
    and "\<And>error. adapter k = Rejected error \<Longrightarrow> hasConfig error \<Longrightarrow>
           \<not> (int (retryCount config) < retries \<and> shouldRetry error) \<Longrightarrow> P"
    and "\<And>error. adapter k = Rejected error \<Longrightarrow> hasConfig error \<Longrightarrow>
           int (retryCount config) < retries \<Longrightarrow> shouldRetry error \<Longrightarrow> P"
  shows P
  using assms by (cases "adapter k") auto

lemma request_fresh:
  "request lib cfg adapter call =
     httpClient (retryLimit (createHttpClient lib cfg)) adapter 0
       (mergeConfig (createHttpClient lib cfg) call)"
  by (simp add: request_def Let_def)

subsection \<open>Whole runs\<close>

lemma sent_nonempty: "sent (httpClient retries adapter k config) \<noteq> []"
  by (cases rule: httpClient_cases
        [where adapter = adapter and k = k and config = config and retries = retries])
     (simp_all add: httpClient_Resolved httpClient_Throw httpClient_GiveUp
        httpClient_SendAgain Let_def)

lemma attempts_pos: "0 < attempts (httpClient retries adapter k config)"
  using sent_nonempty [of retries adapter k config] by (simp add: attempts_def)

lemma delays_exponential:
  "delays (httpClient retries adapter k config) =
     map (\<lambda>n. 2 ^ n * 1000)
       [Suc (retryCount config) ..<
          retryCount config + attempts (httpClient retries adapter k config)]"
proof (induction retries adapter k config rule: httpClient.induct)
  case (1 retries adapter k config)
  show ?case
  proof (cases rule: httpClient_cases
        [where adapter = adapter and k = k and config = config and retries = retries])
    case (Resolved r)
    then show ?thesis by (simp add: httpClient_Resolved attempts_def)
  next
    case (Throw error)
    then show ?thesis by (simp add: httpClient_Throw attempts_def)
  next
    case (GiveUp error)
    then show ?thesis by (simp add: httpClient_GiveUp attempts_def)
  next
    case (SendAgain error)
    let ?c = "config\<lparr>retryField := Some (Suc (retryCount config))\<rparr>"
    have step: "onRejected retries config error =
        SendAgain ?c (2 ^ Suc (retryCount config) * 1000)"
      using SendAgain by (simp add: onRejected_cases)
    have IH: "delays (httpClient retries adapter (Suc k) ?c) =
       map (\<lambda>n. 2 ^ n * 1000)
         [Suc (Suc (retryCount config)) ..<
            Suc (retryCount config) + attempts (httpClient retries adapter (Suc k) ?c)]"
      using "1.IH" [OF SendAgain(1) step] by simp
    have pos: "0 < attempts (httpClient retries adapter (Suc k) ?c)" by (rule attempts_pos)
    have att: "attempts (httpClient retries adapter k config) =
        Suc (attempts (httpClient retries adapter (Suc k) ?c))"
      using SendAgain by (simp add: httpClient_SendAgain Let_def attempts_def)
    have dl: "delays (httpClient retries adapter k config) =
        2 ^ Suc (retryCount config) * 1000 # delays (httpClient retries adapter (Suc k) ?c)"
      using SendAgain by (simp add: httpClient_SendAgain Let_def)
    have "[Suc (retryCount config) ..<
            retryCount config + Suc (attempts (httpClient retries adapter (Suc k) ?c))] =
          Suc (retryCount config) #
            [Suc (Suc (retryCount config)) ..<
               Suc (retryCount config) + attempts (httpClient retries adapter (Suc k) ?c)]"
      using pos by (subst upt_conv_Cons) simp_all
    then show ?thesis
      unfolding att dl IH by simp
  qed
qed


lemma attempts_all_retryable:
  assumes "\<forall>j\<ge>k. \<exists>e. adapter j = Rejected e \<and> hasConfig e \<and> shouldRetry e"
  shows "attempts (httpClient retries adapter k config) =
           Suc (nat (retries - int (retryCount config)))
         \<and> (\<exists>e. outcome (httpClient retries adapter k config) = Rejected (Failure e))"
  using assms
proof (induction retries adapter k config rule: httpClient.induct)
  case (1 retries adapter k config)
  from "1.prems" obtain error
    where e: "adapter k = Rejected error" "hasConfig error" "shouldRetry error"
    by auto
  show ?case
  proof (cases "int (retryCount config) < retries")
    case False
    with e show ?thesis by (simp add: httpClient_GiveUp attempts_def)
  next
    case True
    let ?c = "config\<lparr>retryField := Some (Suc (retryCount config))\<rparr>"
    have step: "onRejected retries config error =
        SendAgain ?c (2 ^ Suc (retryCount config) * 1000)"
      using True e by (simp add: onRejected_cases)
    have rest: "\<forall>j\<ge>Suc k. \<exists>e. adapter j = Rejected e \<and> hasConfig e \<and> shouldRetry e"
      using "1.prems" by auto
    have "nat (retries - int (retryCount config)) =
        Suc (nat (retries - (1 + int (retryCount config))))"
      using True by linarith
    then show ?thesis
      using "1.IH" [OF e(1) step rest] True e
      by (simp add: httpClient_SendAgain Let_def attempts_def)
  qed
qed

lemma retried_iff:
  assumes "adapter k = Rejected error" and "hasConfig error"
  shows "(1 < attempts (httpClient retries adapter k config)) =
         (int (retryCount config) < retries \<and> shouldRetry error)"
proof (cases "int (retryCount config) < retries \<and> shouldRetry error")
  case False
  with assms show ?thesis by (simp add: httpClient_GiveUp attempts_def)
next
  case True
  then show ?thesis
    using assms attempts_pos [of retries adapter "Suc k"
        "config\<lparr>retryField := Some (Suc (retryCount config))\<rparr>"]
    by (simp add: httpClient_SendAgain Let_def attempts_def)
qed

lemma shouldRetry_iff:
  "shouldRetry error =
     (response error = None \<or>
      (\<exists>r. response error = Some r \<and> (500 \<le> status r \<or> status r = 429)))"
  by (auto simp: shouldRetry_def split: option.splits)

lemma attempts_permanent_failure:
  assumes "\<forall>j. \<exists>e. adapter j = Rejected e \<and> hasConfig e \<and> shouldRetry e"
  shows "attempts (request lib cfg adapter call) =
           Suc (nat (retryLimit (createHttpClient lib cfg)))"
  using attempts_all_retryable [of 0 adapter "retryLimit (createHttpClient lib cfg)"
      "mergeConfig (createHttpClient lib cfg) call"] assms
  by (simp add: request_fresh)

subsection \<open>The example inputs\<close>

lemma shouldRetry_statusError [simp]: "shouldRetry (statusError st) = (500 \<le> st \<or> st = 429)"
  by (simp add: shouldRetry_def statusError_def)

lemma shouldRetry_networkError [simp]: "shouldRetry networkError"
  by (simp add: shouldRetry_def networkError_def)

lemma shouldRetry_invalidUrlError [simp]: "shouldRetry invalidUrlError"
  by (simp add: shouldRetry_def invalidUrlError_def)

lemma hasConfig_examples [simp]:
  "hasConfig (statusError st)" "hasConfig networkError" "\<not> hasConfig invalidUrlError"
  by (simp_all add: statusError_def networkError_def invalidUrlError_def)

lemma network_retries_example [simp]:
  "network_retries exampleConfig = None" "network_retries (withRetries r) = Some r"
  by (simp_all add: network_retries_def exampleConfig_def withRetries_def)

lemma retryLimit_example [simp]:
  "retryLimit (createHttpClient lib exampleConfig) = 3"
  "retryLimit (createHttpClient lib (withRetries r)) = (if r = 0 then 3 else r)"
  by (simp_all add: createHttpClient_def js_or_def)


text \<open>
  A transport that fails every attempt with a retryable failure carrying its
  configuration is tried once more than the configured retry count when that count is
  one or more, and four times when none is configured.
\<close>

lemma attempts_configured_retries:
  assumes "\<forall>j. \<exists>e. adapter j = Rejected e \<and> hasConfig e \<and> shouldRetry e"
  shows "network_retries cfg = Some r \<Longrightarrow> 1 \<le> r \<Longrightarrow>
           attempts (request lib cfg adapter call) = nat r + 1"
    and "network_retries cfg = None \<Longrightarrow> attempts (request lib cfg adapter call) = 3 + 1"
  using attempts_permanent_failure [OF assms, of lib cfg call]
  by (simp_all add: createHttpClient_def js_or_def)

text \<open>
  The delays of a call: before its \<open>n\<close>-th retry, which is its attempt number
  \<open>n + 1\<close>, \<open>setTimeout\<close> is asked for \<open>2^n\<close> seconds.
\<close>

lemma delays_of_request:
  "delays (request lib cfg adapter call) =
     map (\<lambda>n. 2 ^ n * 1000) [1 ..< attempts (request lib cfg adapter call)]"
  using delays_exponential [of "retryLimit (createHttpClient lib cfg)" adapter 0
      "mergeConfig (createHttpClient lib cfg) call"]
  by (simp add: request_fresh)

subsection \<open>The claims about the pipeline\<close>

text \<open>
  C1, as the claim states it, fails: a retryable failure is not retried once the
  retries of the call are used up. A client configured with one retry whose transport
  answers every attempt with a 503 makes two attempts: the second failure, retryable
  like the first, is passed on to the caller. A client whose configured count is
  negative does not retry at all, not even a request that got no response.
\<close>

theorem retryable_failure_not_retried_without_budget:
  "shouldRetry (statusError 503)
   \<and> attempts (request libraryAccept (withRetries 1) (\<lambda>k. Rejected (statusError 503))
        (callOf (withRetries 1) GetBalance)) = 2
   \<and> outcome (request libraryAccept (withRetries 1) (\<lambda>k. Rejected (statusError 503))
        (callOf (withRetries 1) GetBalance)) = Rejected (Failure (statusError 503))
   \<and> shouldRetry networkError
   \<and> attempts (request libraryAccept (withRetries (- 1)) (\<lambda>k. Rejected networkError)
        (callOf (withRetries (- 1)) GetBalance)) = 1"
  by (simp add: request_fresh httpClient_SendAgain httpClient_GiveUp Let_def attempts_def)

text \<open>
  C1, amended. A failed attempt is classified as retryable exactly when it has no
  response, or has one with a status of 500 or more or of 429. For every failed
  attempt whose error carries the configuration of its request, the pipeline sends the
  request again if and only if fewer retries than the limit of the interceptor have
  been made for the call and the failure is retryable. Any other such failure is not
  retried: the call ends with that attempt and rejects with the error as it is.
\<close>

theorem retry_iff_budget_and_retryable:
  "shouldRetry error =
     (response error = None \<or>
      (\<exists>r. response error = Some r \<and> (500 \<le> status r \<or> status r = 429)))
   \<and> (adapter k = Rejected error \<and> hasConfig error \<longrightarrow>
        (1 < attempts (httpClient retries adapter k config)) =
          (int (retryCount config) < retries \<and> shouldRetry error))
   \<and> (adapter k = Rejected error \<and> hasConfig error \<and> \<not> shouldRetry error \<longrightarrow>
        httpClient retries adapter k config =
          \<lparr>outcome = Rejected (Failure error), sent = [config], delays = []\<rparr>)"
proof (intro conjI impI)
  show "shouldRetry error =
     (response error = None \<or>
      (\<exists>r. response error = Some r \<and> (500 \<le> status r \<or> status r = 429)))"
    by (rule shouldRetry_iff)
next
  assume "adapter k = Rejected error \<and> hasConfig error"
  then show "(1 < attempts (httpClient retries adapter k config)) =
          (int (retryCount config) < retries \<and> shouldRetry error)"
    using retried_iff [of adapter k error retries config] by simp
next
  assume "adapter k = Rejected error \<and> hasConfig error \<and> \<not> shouldRetry error"
  then show "httpClient retries adapter k config =
          \<lparr>outcome = Rejected (Failure error), sent = [config], delays = []\<rparr>"
    by (simp add: httpClient_GiveUp)
qed

theorem retry_iff_budget_and_retryable_witness:
  "hasConfig (statusError 404)
   \<and> \<not> shouldRetry (statusError 404)
   \<and> \<not> 1 < attempts (httpClient 2 (\<lambda>k. Rejected (statusError 404)) 0
        (mergeConfig (createHttpClient libraryAccept (withRetries 2))
           (callOf (withRetries 2) GetBalance)))
   \<and> httpClient 2 (\<lambda>k. Rejected (statusError 404)) 0
        (mergeConfig (createHttpClient libraryAccept (withRetries 2))
           (callOf (withRetries 2) GetBalance)) =
      \<lparr>outcome = Rejected (Failure (statusError 404)),
       sent = [mergeConfig (createHttpClient libraryAccept (withRetries 2))
                 (callOf (withRetries 2) GetBalance)],
       delays = []\<rparr>
   \<and> hasConfig (statusError 503)
   \<and> shouldRetry (statusError 503)
   \<and> int (retryCount (mergeConfig (createHttpClient libraryAccept (withRetries 2))
        (callOf (withRetries 2) GetBalance))) < 2
   \<and> 1 < attempts (httpClient 2 (\<lambda>k. Rejected (statusError 503)) 0
        (mergeConfig (createHttpClient libraryAccept (withRetries 2))
           (callOf (withRetries 2) GetBalance)))
   \<and> shouldRetry (statusError 429)
   \<and> shouldRetry networkError"
  using retry_iff_budget_and_retryable
      [where error = "statusError 404" and adapter = "\<lambda>k. Rejected (statusError 404)"
         and k = 0 and retries = 2
         and config = "mergeConfig (createHttpClient libraryAccept (withRetries 2))
                         (callOf (withRetries 2) GetBalance)"]
    retry_iff_budget_and_retryable
      [where error = "statusError 503" and adapter = "\<lambda>k. Rejected (statusError 503)"
         and k = 0 and retries = 2
         and config = "mergeConfig (createHttpClient libraryAccept (withRetries 2))
                         (callOf (withRetries 2) GetBalance)"]
  by (simp add: attempts_def)

text \<open>
  C2. The claim is that for every configured retry count \<open>r\<close>, an explicit \<open>0\<close>
  included, a transport that fails every attempt with a retryable failure is tried
  exactly \<open>r + 1\<close> times. With \<open>network.retries = 0\<close> the interceptor reads
  \<open>0 || 3\<close>, which is \<open>3\<close>: the call below, which never gets a response, is attempted
  four times and not once.
\<close>

theorem zero_retries_four_attempts:
  "attempts (request lib (withRetries 0) (\<lambda>k. Rejected networkError)
               (callOf (withRetries 0) GetBalance)) = 4
   \<and> delays (request lib (withRetries 0) (\<lambda>k. Rejected networkError)
               (callOf (withRetries 0) GetBalance)) = [2000, 4000, 8000]"
proof -
  let ?run = "request lib (withRetries 0) (\<lambda>k. Rejected networkError)
                (callOf (withRetries 0) GetBalance)"
  have a: "attempts ?run = 4"
    using attempts_permanent_failure [of "\<lambda>k. Rejected networkError" lib "withRetries 0"
        "callOf (withRetries 0) GetBalance"]
    by simp
  have "delays ?run = map (\<lambda>n. 2 ^ n * 1000) [1 ..< attempts ?run]"
    by (rule delays_of_request)
  then have "delays ?run = [2000, 4000, 8000]"
    unfolding a by (simp add: upt_conv_Cons)
  with a show ?thesis by simp
qed

text \<open>
  C3. The claim is that the retries of a retryable failure sequence wait 2 seconds, 4
  seconds and so on, and that the caller gets the last observed failure, unchanged,
  when the attempts are exhausted. A request that gets no response is a retryable
  failure; when its error carries no configuration the interceptor throws while
  handling it. With the one retry of the first call below used up on a 503, the second
  attempt fails in that way, and the caller gets the \<open>TypeError\<close> of the interceptor
  in place of the failure observed. In the second call every attempt fails in that
  way: the first failure is neither retried nor passed on.
\<close>

theorem failure_without_config_not_surfaced:
  "attempts (request lib (withRetries 1) serverErrorThenInvalidUrl call) = 2
   \<and> delays (request lib (withRetries 1) serverErrorThenInvalidUrl call) = [2000]
   \<and> serverErrorThenInvalidUrl 1 = Rejected invalidUrlError
   \<and> outcome (request lib (withRetries 1) serverErrorThenInvalidUrl call)
       = Rejected HandlerTypeError
   \<and> shouldRetry invalidUrlError
   \<and> request lib exampleConfig (\<lambda>k. Rejected invalidUrlError) call =
       \<lparr>outcome = Rejected HandlerTypeError,
        sent = [mergeConfig (createHttpClient lib exampleConfig) call],
        delays = []\<rparr>"
  by (simp add: request_fresh httpClient_SendAgain httpClient_Throw Let_def attempts_def
      serverErrorThenInvalidUrl_def)




section \<open>Properties of the event channel\<close>

subsection \<open>Dispatch\<close>

lemma callListeners_all_return:
  "\<forall>l \<in> set ls. callback l p = Returned \<Longrightarrow> callListeners ls p = (map handle ls, None)"
  by (induction ls) simp_all

lemma callListeners_first_throw:
  "\<forall>l \<in> set before. callback l p = Returned \<Longrightarrow> callback l p = Threw e \<Longrightarrow>
   callListeners (before @ l # after) p = (map handle (before @ [l]), Some e)"
  by (induction before) simp_all

lemma emit_no_listeners: "listeners s event = [] \<Longrightarrow> emit event p s = (s, None)"
  by (simp add: emit_def)

text \<open>
  C4, as the claim states it, fails: with a listener that throws registered for
  \<open>offer\<close> before one that returns, one dispatch of \<open>offer\<close> calls the first only, and
  the exception leaves \<open>emit\<close>.
\<close>

theorem throwing_listener_ends_dispatch:
  "listeners (on ''offer'' quiet (on ''offer'' throwing newClient)) ''offer'' = [throwing, quiet]
   \<and> invoked (fst (emit ''offer'' Undefined (on ''offer'' quiet (on ''offer'' throwing newClient))))
       = [(''offer'', handle throwing, Undefined)]
   \<and> snd (emit ''offer'' Undefined (on ''offer'' quiet (on ''offer'' throwing newClient)))
       = Some (Thrown ''boom'')"
  by (simp add: emit_def on_def newClient_def throwing_def quiet_def)

text \<open>
  C4, amended. During a single dispatch the handles of the kind are invoked in the
  order of their registration. When all of them return, all are invoked and the
  dispatch raises nothing. When one throws, those registered before it have been
  invoked, those registered after it are not invoked, and its exception is raised to
  the caller of the dispatch. For an inbound frame that caller is the message handler
  of the socket, which catches the exception and logs it: nothing is raised out of the
  message handler.
\<close>

theorem dispatch_runs_until_first_throw:
  "((\<forall>l \<in> set (listeners s event). callback l p = Returned) \<longrightarrow>
      emit event p s =
        (s\<lparr>invoked := invoked s @ map (\<lambda>l. (event, handle l, p)) (listeners s event)\<rparr>, None))
   \<and> (listeners s event = before @ l # after \<and> (\<forall>l' \<in> set before. callback l' p = Returned)
        \<and> callback l p = Threw e \<longrightarrow>
      emit event p s =
        (s\<lparr>invoked := invoked s @ map (\<lambda>l. (event, handle l, p)) (before @ [l])\<rparr>, Some e))
   \<and> (parse raw = Some data \<and> handleWebSocketMessage data s = (s', Some e) \<longrightarrow>
      onmessage parse raw s =
        s'\<lparr>console := console s' @
             [ConsoleError ''[VOLTNET] Failed to parse WebSocket message:'']\<rparr>)"
proof (intro conjI impI)
  assume "\<forall>l \<in> set (listeners s event). callback l p = Returned"
  then show "emit event p s =
        (s\<lparr>invoked := invoked s @ map (\<lambda>l. (event, handle l, p)) (listeners s event)\<rparr>, None)"
    by (simp add: emit_def callListeners_all_return comp_def)
next
  assume a: "listeners s event = before @ l # after
        \<and> (\<forall>l' \<in> set before. callback l' p = Returned)
        \<and> callback l p = Threw e"
  then have "callListeners (listeners s event) p = (map handle (before @ [l]), Some e)"
    using callListeners_first_throw [of before p l e after] by simp
  then show "emit event p s =
        (s\<lparr>invoked := invoked s @ map (\<lambda>l. (event, handle l, p)) (before @ [l])\<rparr>, Some e)"
    by (simp add: emit_def comp_def)
next
  assume "parse raw = Some data \<and> handleWebSocketMessage data s = (s', Some e)"
  then show "onmessage parse raw s =
        s'\<lparr>console := console s' @
             [ConsoleError ''[VOLTNET] Failed to parse WebSocket message:'']\<rparr>"
    by (simp add: onmessage_def)
qed

lemma listeners_two_quiet:
  "listeners (on ''offer'' quiet (on ''offer'' quiet newClient)) ''offer'' = [quiet, quiet]"
  by (simp add: on_def newClient_def)

lemma listeners_quiet_throwing_quiet:
  "listeners (on ''offer'' quiet (on ''offer'' throwing (on ''offer'' quiet newClient))) ''offer''
     = [quiet, throwing, quiet]"
  by (simp add: on_def newClient_def)

lemma offer_frame_with_throwing_listener:
  "handleWebSocketMessage (JObject [(''type'', JString ''offer'')])
       (on ''offer'' quiet (on ''offer'' throwing (on ''offer'' quiet newClient))) =
     ((on ''offer'' quiet (on ''offer'' throwing (on ''offer'' quiet newClient)))
        \<lparr>invoked := [(''offer'', 2, Undefined), (''offer'', 1, Undefined)]\<rparr>,
      Some (Thrown ''boom''))"
  by (simp add: handleWebSocketMessage_def Let_def emit_def on_def newClient_def throwing_def
      quiet_def toPayload_def)

theorem dispatch_runs_until_first_throw_witness:
  "callback quiet Undefined = Returned
   \<and> invoked (fst (emit ''offer'' Undefined (on ''offer'' quiet (on ''offer'' quiet newClient))))
       = [(''offer'', 2, Undefined), (''offer'', 2, Undefined)]
   \<and> snd (emit ''offer'' Undefined (on ''offer'' quiet (on ''offer'' quiet newClient))) = None
   \<and> callback throwing Undefined = Threw (Thrown ''boom'')
   \<and> invoked (fst (emit ''offer'' Undefined
        (on ''offer'' quiet (on ''offer'' throwing (on ''offer'' quiet newClient)))))
       = [(''offer'', 2, Undefined), (''offer'', 1, Undefined)]
   \<and> snd (emit ''offer'' Undefined
        (on ''offer'' quiet (on ''offer'' throwing (on ''offer'' quiet newClient))))
       = Some (Thrown ''boom'')
   \<and> console (onmessage (\<lambda>t. Some (JObject [(''type'', JString ''offer'')])) ''frame''
        (on ''offer'' quiet (on ''offer'' throwing (on ''offer'' quiet newClient))))
       = [ConsoleError ''[VOLTNET] Failed to parse WebSocket message:'']"
  using dispatch_runs_until_first_throw
      [where s = "on ''offer'' quiet (on ''offer'' quiet newClient)" and event = "''offer''"
         and p = Undefined]
    dispatch_runs_until_first_throw
      [where s = "on ''offer'' quiet (on ''offer'' throwing (on ''offer'' quiet newClient))"
         and event = "''offer''" and p = Undefined and before = "[quiet]" and l = throwing
         and after = "[quiet]" and e = "Thrown ''boom''"
         and parse = "\<lambda>t. Some (JObject [(''type'', JString ''offer'')])" and raw = "''frame''"
         and data = "JObject [(''type'', JString ''offer'')]"
         and s' = "(on ''offer'' quiet (on ''offer'' throwing (on ''offer'' quiet newClient)))
                     \<lparr>invoked := [(''offer'', 2, Undefined), (''offer'', 1, Undefined)]\<rparr>"]
  unfolding listeners_two_quiet listeners_quiet_throwing_quiet offer_frame_with_throwing_listener
  by (simp add: quiet_def throwing_def newClient_def on_def)

subsection \<open>Shutdown\<close>

lemma disconnect_fields:
  "wsConnection (disconnect s) = None"
  "listeners (disconnect s) = (\<lambda>event. [])"
  "timers (disconnect s) = timers s"
  "closeCalls (disconnect s) =
     closeCalls s @ (case wsConnection s of None \<Rightarrow> [] | Some c \<Rightarrow> [c])"
  by (simp_all add: disconnect_def removeAllListeners_def split: option.splits)

text \<open>
  C5, as the claim states it, fails: \<open>disconnect()\<close> cancels no timer. A client whose
  connection has closed has a reconnect timer pending; after \<open>disconnect()\<close> the timer
  is still pending, and when it comes due a new socket is created and held.
\<close>

theorem reconnect_after_disconnect:
  "timers (disconnect (onclose (VoltnetClient realtimeConfig True))) = [5000]
   \<and> wsConnection (disconnect (onclose (VoltnetClient realtimeConfig True))) = None
   \<and> wsConnection (timerFires True (disconnect (onclose (VoltnetClient realtimeConfig True))))
       = Some 1
   \<and> socketsCreated (timerFires True (disconnect (onclose (VoltnetClient realtimeConfig True))))
       = 2"
  by (simp add: disconnect_def removeAllListeners_def onclose_def VoltnetClient_def
      realtimeConfig_def exampleConfig_def initializeWebSocket_def newClient_def timerFires_def)

text \<open>
  C5, amended. \<open>disconnect()\<close> closes the connection the client holds, if any, lets go
  of it, and clears the registry: a dispatch to any kind on the state it leaves invokes
  no handle and raises nothing.
\<close>

theorem disconnect_closes_and_clears:
  "wsConnection (disconnect s) = None
   \<and> closeCalls (disconnect s) =
       closeCalls s @ (case wsConnection s of None \<Rightarrow> [] | Some c \<Rightarrow> [c])
   \<and> listeners (disconnect s) = (\<lambda>event. [])
   \<and> emit event p (disconnect s) = (disconnect s, None)"
  by (simp add: disconnect_fields emit_no_listeners)

theorem disconnect_closes_and_clears_witness:
  "wsConnection (on ''offer'' quiet (VoltnetClient realtimeConfig True)) = Some 0
   \<and> closeCalls (disconnect (on ''offer'' quiet (VoltnetClient realtimeConfig True))) = [0]
   \<and> invoked (fst (emit ''offer'' Undefined
        (disconnect (on ''offer'' quiet (VoltnetClient realtimeConfig True))))) = []
   \<and> snd (emit ''offer'' Undefined
        (disconnect (on ''offer'' quiet (VoltnetClient realtimeConfig True)))) = None"
  using disconnect_closes_and_clears
      [of "on ''offer'' quiet (VoltnetClient realtimeConfig True)" "''offer''" Undefined]
  by (simp add: on_def VoltnetClient_def realtimeConfig_def exampleConfig_def
      initializeWebSocket_def newClient_def disconnect_def removeAllListeners_def)

subsection \<open>Frames that are not dispatched\<close>

lemma handle_unknown:
  assumes "data \<noteq> JNull"
    and "\<forall>k \<in> set recognizedKinds. getProp data ''type'' \<noteq> Some (JString k)"
  shows "handleWebSocketMessage data s =
     (s\<lparr>console := console s @ [ConsoleWarn ''[VOLTNET] Unknown message type:'']\<rparr>, None)"
  using assms by (simp add: handleWebSocketMessage_def recognizedKinds_def Let_def)

text \<open>
  C6. A frame that does not decode is dropped with one diagnostic on the console. So
  is a decoded frame whose \<open>type\<close> is none of measurement, transaction, settlement,
  offer, price-update, balance-update (a decoded \<open>null\<close> is reported like a frame that
  does not decode, every other such frame as an unknown type). In both cases no handle
  is invoked, and the connection, the pending timers and the registry are as before:
  the state changes in the console alone.
\<close>

theorem undecodable_or_unknown_frame_dropped:
  "(parse raw = None \<longrightarrow>
      onmessage parse raw s =
        s\<lparr>console := console s @
            [ConsoleError ''[VOLTNET] Failed to parse WebSocket message:'']\<rparr>)
   \<and> (parse raw = Some data
        \<and> (\<forall>k \<in> set recognizedKinds. getProp data ''type'' \<noteq> Some (JString k)) \<longrightarrow>
      onmessage parse raw s =
        s\<lparr>console := console s @
            [if data = JNull
             then ConsoleError ''[VOLTNET] Failed to parse WebSocket message:''
             else ConsoleWarn ''[VOLTNET] Unknown message type:'']\<rparr>)
   \<and> (parse raw = None
        \<or> (\<exists>data. parse raw = Some data
              \<and> (\<forall>k \<in> set recognizedKinds. getProp data ''type'' \<noteq> Some (JString k))) \<longrightarrow>
      invoked (onmessage parse raw s) = invoked s
      \<and> wsConnection (onmessage parse raw s) = wsConnection s
      \<and> closeCalls (onmessage parse raw s) = closeCalls s
      \<and> timers (onmessage parse raw s) = timers s
      \<and> listeners (onmessage parse raw s) = listeners s)"
proof -
  have a: "onmessage parse raw s =
        s\<lparr>console := console s @
            [ConsoleError ''[VOLTNET] Failed to parse WebSocket message:'']\<rparr>"
    if "parse raw = None"
    using that by (simp add: onmessage_def)
  have b: "onmessage parse raw s =
        s\<lparr>console := console s @
            [if d = JNull
             then ConsoleError ''[VOLTNET] Failed to parse WebSocket message:''
             else ConsoleWarn ''[VOLTNET] Unknown message type:'']\<rparr>"
    if "parse raw = Some d"
      and "\<forall>k \<in> set recognizedKinds. getProp d ''type'' \<noteq> Some (JString k)" for d
  proof (cases "d = JNull")
    case True
    with that show ?thesis by (simp add: onmessage_def handleWebSocketMessage_def)
  next
    case False
    with that show ?thesis by (simp add: onmessage_def handle_unknown)
  qed
  have c: "invoked (onmessage parse raw s) = invoked s
      \<and> wsConnection (onmessage parse raw s) = wsConnection s
      \<and> closeCalls (onmessage parse raw s) = closeCalls s
      \<and> timers (onmessage parse raw s) = timers s
      \<and> listeners (onmessage parse raw s) = listeners s"
    if "parse raw = None
        \<or> (\<exists>data. parse raw = Some data
              \<and> (\<forall>k \<in> set recognizedKinds. getProp data ''type'' \<noteq> Some (JString k)))"
  proof -
    from that obtain entry
      where "onmessage parse raw s = s\<lparr>console := console s @ [entry]\<rparr>"
      using a b by blast
    then show ?thesis by simp
  qed
  show ?thesis
    using a b [of data] c by blast
qed

theorem undecodable_or_unknown_frame_dropped_witness:
  "(\<lambda>t. if t = ''{'' then None else Some (JObject [(''type'', JString ''ping'')])) ''{'' = None
   \<and> onmessage (\<lambda>t. if t = ''{'' then None else Some (JObject [(''type'', JString ''ping'')]))
        ''{'' (on ''offer'' quiet (VoltnetClient realtimeConfig True)) =
      (on ''offer'' quiet (VoltnetClient realtimeConfig True))
        \<lparr>console := [ConsoleError ''[VOLTNET] Failed to parse WebSocket message:'']\<rparr>
   \<and> getProp (JObject [(''type'', JString ''ping'')]) ''type'' = Some (JString ''ping'')
   \<and> ''ping'' \<notin> set recognizedKinds
   \<and> onmessage (\<lambda>t. if t = ''{'' then None else Some (JObject [(''type'', JString ''ping'')]))
        ''ping'' (on ''offer'' quiet (VoltnetClient realtimeConfig True)) =
      (on ''offer'' quiet (VoltnetClient realtimeConfig True))
        \<lparr>console := [ConsoleWarn ''[VOLTNET] Unknown message type:'']\<rparr>
   \<and> invoked (onmessage (\<lambda>t. if t = ''{'' then None else Some (JObject [(''type'', JString ''ping'')]))
        ''ping'' (on ''offer'' quiet (VoltnetClient realtimeConfig True))) = []
   \<and> wsConnection (onmessage (\<lambda>t. if t = ''{'' then None else Some (JObject [(''type'', JString ''ping'')]))
        ''ping'' (on ''offer'' quiet (VoltnetClient realtimeConfig True))) = Some 0"
  using undecodable_or_unknown_frame_dropped
      [where parse = "\<lambda>t. if t = ''{'' then None else Some (JObject [(''type'', JString ''ping'')])"
         and raw = "''{''" and s = "on ''offer'' quiet (VoltnetClient realtimeConfig True)"]
    undecodable_or_unknown_frame_dropped
      [where parse = "\<lambda>t. if t = ''{'' then None else Some (JObject [(''type'', JString ''ping'')])"
         and raw = "''ping''" and s = "on ''offer'' quiet (VoltnetClient realtimeConfig True)"
         and data = "JObject [(''type'', JString ''ping'')]"]
  by (simp add: recognizedKinds_def on_def VoltnetClient_def realtimeConfig_def exampleConfig_def
      initializeWebSocket_def newClient_def)

subsection \<open>Reconnection\<close>

lemma closeAndReconnect_state:
  "timers s = [] \<Longrightarrow>
   timers (closeAndReconnect n s) = []
   \<and> socketsCreated (closeAndReconnect n s) = socketsCreated s + n
   \<and> wsConnection (closeAndReconnect n s) =
       (if n = 0 then wsConnection s else Some (socketsCreated s + n - 1))"
proof (induction n arbitrary: s)
  case 0
  then show ?case by simp
next
  case (Suc n)
  let ?s = "timerFires True (onclose s)"
  have t: "timers ?s = []" and c: "socketsCreated ?s = Suc (socketsCreated s)"
    and w: "wsConnection ?s = Some (socketsCreated s)"
    using Suc.prems by (simp_all add: timerFires_def onclose_def initializeWebSocket_def)
  show ?case
    using Suc.IH [OF t] c w by simp
qed

text \<open>
  C7, as the claim states it, fails: when the construction of the socket throws, the
  catch clause logs and schedules nothing. A client created with the realtime flag
  whose first construction throws holds no connection and has no timer pending, and
  nothing is left that would bring it out of that state.
\<close>

theorem failed_construction_schedules_nothing:
  "wsConnection (VoltnetClient realtimeConfig False) = None
   \<and> timers (VoltnetClient realtimeConfig False) = []"
  by (simp add: VoltnetClient_def realtimeConfig_def exampleConfig_def initializeWebSocket_def
      newClient_def)

text \<open>
  C7, amended. Whenever a connection of the channel closes, a reconnect is scheduled
  after a fixed 5 seconds, and when the timer comes due and a socket is constructed
  the client holds a new connection. Nothing counts the reconnections: however often
  the connection has closed and been reopened, the next close is followed by a
  reconnect again.
\<close>

theorem close_schedules_reconnect:
  "timers (onclose s) = timers s @ [5000]
   \<and> (timers s = [] \<longrightarrow>
        wsConnection (timerFires True (onclose s)) = Some (socketsCreated s)
        \<and> timers (timerFires True (onclose s)) = [])
   \<and> (timers s = [] \<longrightarrow>
        socketsCreated (closeAndReconnect n s) = socketsCreated s + n
        \<and> timers (closeAndReconnect (Suc n) s) = []
        \<and> wsConnection (closeAndReconnect (Suc n) s) = Some (socketsCreated s + n))"
proof -
  have "timers s = [] \<longrightarrow>
        wsConnection (timerFires True (onclose s)) = Some (socketsCreated s)
        \<and> timers (timerFires True (onclose s)) = []"
    by (simp add: timerFires_def onclose_def initializeWebSocket_def)
  moreover have "timers s = [] \<longrightarrow>
        socketsCreated (closeAndReconnect n s) = socketsCreated s + n
        \<and> timers (closeAndReconnect (Suc n) s) = []
        \<and> wsConnection (closeAndReconnect (Suc n) s) = Some (socketsCreated s + n)"
    using closeAndReconnect_state [of s n] closeAndReconnect_state [of s "Suc n"] by simp
  ultimately show ?thesis
    by (simp add: onclose_def)
qed

lemma realtime_client_connected:
  "VoltnetClient realtimeConfig True = newClient\<lparr>wsConnection := Some 0, socketsCreated := 1\<rparr>"
  by (simp add: VoltnetClient_def realtimeConfig_def exampleConfig_def initializeWebSocket_def
      newClient_def)

theorem close_schedules_reconnect_witness:
  "timers (VoltnetClient realtimeConfig True) = []
   \<and> timers (onclose (VoltnetClient realtimeConfig True)) = [5000]
   \<and> wsConnection (timerFires True (onclose (VoltnetClient realtimeConfig True))) = Some 1
   \<and> wsConnection (closeAndReconnect 3 (VoltnetClient realtimeConfig True)) = Some 3
   \<and> timers (closeAndReconnect 3 (VoltnetClient realtimeConfig True)) = []"
  using close_schedules_reconnect [of "VoltnetClient realtimeConfig True" 2]
  by (simp add: realtime_client_connected newClient_def numeral_3_eq_3)

end
